theory Spec2Isabelle
  imports Complex_Main "HOL-Library.Char_ord" "HOL-Library.List_Lexorder"
begin

section \<open>Values shared by the two services\<close>

text \<open>
  Both scripts are Flask applications: module-level code runs once when the module is
  loaded (reading a dataset, fitting a model), then view functions answer requests.
  The module-level code becomes a \<open>startup\<close> function that returns the record of module
  globals or the exception that aborts the import; a view function becomes a function of
  that record. Exceptions are values of \<open>error\<close>, on the left of a sum.
\<close>

datatype error =
    FileNotFoundError
  | ValueError
  | NotFittedError
  | IndexError
  | TypeError
  | BadRequestKeyError string
  | TemplateNotFound string
  | NotFound

text \<open>
  A value of the target column of the spam dataset, as pandas holds it and as the
  classifier hands it back: a Python string when the column was read as text, a
  \<open>numpy.int64\<close> when every cell of the column was an integer and pandas typed the
  column as 64-bit integers. Other column types are not modelled.
\<close>

datatype label = LStr string | LInt int

text \<open>The JSON documents that the scripts send: an object with string values.\<close>

datatype json = JStr string | JObj "(string \<times> json) list"

text \<open>
  A numeric result of numpy: a number, or the not-a-number value that an average over no
  elements yields. Numbers are exact rationals here, not IEEE doubles.
\<close>

datatype pyfloat = Float rat | NaN

text \<open>The keyword arguments handed to \<open>render_template\<close>.\<close>

datatype tval = TStr string | TNum pyfloat

type_synonym template = "(string \<times> tval) list \<Rightarrow> string"

type_synonym templates = "string \<rightharpoonup> template"

text \<open>
  \<open>render_template(name, **context)\<close>: the templates folder of the application maps a file
  name to what its template renders for a context; a name with no file raises
  \<open>TemplateNotFound\<close>. The template files are not part of the scripts, so the folder is a
  parameter.
\<close>

definition render_template :: "templates \<Rightarrow> string \<Rightarrow> (string \<times> tval) list \<Rightarrow> error + string" where
  "render_template ts name ctx =
     (case ts name of None \<Rightarrow> Inl (TemplateNotFound name) | Some t \<Rightarrow> Inr (t ctx))"

text \<open>What a view function returns: a string (sent as HTML) or the result of \<open>jsonify\<close>.\<close>

datatype body = Html string | Json json | ErrorPage error

datatype response = Response (status: nat) (content: body)

text \<open>
  \<open>flask.jsonify\<close> of a dictionary from string keys to labels: a string is serialised
  as it is; a \<open>numpy.int64\<close> is not known to the JSON encoder, which raises
  \<open>TypeError\<close>.
\<close>

fun json_items :: "(string \<times> label) list \<Rightarrow> error + (string \<times> json) list" where
  "json_items [] = Inr []"
| "json_items ((k, LStr s) # kvs) =
     (case json_items kvs of Inl e \<Rightarrow> Inl e | Inr js \<Rightarrow> Inr ((k, JStr s) # js))"
| "json_items ((k, LInt n) # kvs) = Inl TypeError"

definition jsonify :: "(string \<times> label) list \<Rightarrow> error + body" where
  "jsonify results =
     (case json_items results of Inl e \<Rightarrow> Inl e | Inr js \<Rightarrow> Inr (Json (JObj js)))"

text \<open>
  A GET request: the path and the query string as the list of its key/value pairs in
  order (\<open>request.args\<close> is a multi-dictionary whose indexing returns the first value of a
  key and raises \<open>BadRequestKeyError\<close> for a key that is absent). Other methods are not
  modelled: every route of the two scripts is declared for GET.
\<close>

datatype request = GET string "(string \<times> string) list"

definition args_getitem :: "(string \<times> string) list \<Rightarrow> string \<Rightarrow> error + string" where
  "args_getitem a k = (case map_of a k of None \<Rightarrow> Inl (BadRequestKeyError k) | Some v \<Rightarrow> Inr v)"

text \<open>
  Both scripts end with \<open>if __name__ == '__main__': app.run(debug = True)\<close>: run as a
  script, the application serves in debug mode; imported by another server, it serves
  with the framework's default, debug off.
\<close>

definition run_debug :: "string \<Rightarrow> bool" where
  "run_debug name \<longleftrightarrow> name = ''__main__''"

text \<open>
  The framework's translation of an exception that leaves a view function. An HTTP
  exception answers with its own status code: \<open>NotFound\<close> is 404, and
  \<open>BadRequestKeyError\<close> is a \<open>BadRequest\<close>, 400. In debug mode the framework traps a
  \<open>BadRequestKeyError\<close> instead: it is re-raised as an unhandled exception, like any
  other exception, and the client gets status 500 (with the debugger's page). The
  process goes on serving in every case.
\<close>

fun http_code :: "bool \<Rightarrow> error \<Rightarrow> nat" where
  "http_code dbg (BadRequestKeyError k) = (if dbg then 500 else 400)"
| "http_code dbg NotFound = 404"
| "http_code dbg e = 500"

definition make_response :: "bool \<Rightarrow> error + body \<Rightarrow> response" where
  "make_response dbg rv = (case rv of Inl e \<Rightarrow> Response (http_code dbg e) (ErrorPage e)
                                     | Inr b \<Rightarrow> Response 200 b)"

section \<open>The library calls of hello.py\<close>

text \<open>
  \<open>pd.Series(s)\<close> of one string: a series with that string as its only element.
\<close>

definition pd_Series :: "string \<Rightarrow> string list" where
  "pd_Series s = [s]"

text \<open>
  The data frame that \<open>pd.read_csv\<close> makes of the tab-separated file without header, with
  its two columns named \<open>target\<close> and \<open>msg\<close>: the rows, and the type pandas gave the first
  column. A column of labels on its own (\<open>df['target']\<close>) keeps that type.
\<close>

datatype frame = TextTarget "(string \<times> string) list" | IntTarget "(int \<times> string) list"

datatype column = StrCol "string list" | IntCol "int list"

fun df_target :: "frame \<Rightarrow> column" where
  "df_target (TextTarget rows) = StrCol (map fst rows)"
| "df_target (IntTarget rows) = IntCol (map fst rows)"

fun df_msg :: "frame \<Rightarrow> string list" where
  "df_msg (TextTarget rows) = map snd rows"
| "df_msg (IntTarget rows) = map snd rows"

fun col_values :: "column \<Rightarrow> label list" where
  "col_values (StrCol ys) = map LStr ys"
| "col_values (IntCol ns) = map LInt ns"

text \<open>\<open>numpy.unique\<close>: the distinct values, sorted.\<close>

fun np_unique :: "column \<Rightarrow> label list" where
  "np_unique (StrCol ys) = map LStr (sort (remdups ys))"
| "np_unique (IntCol ns) = map LInt (sort (remdups ns))"

text \<open>
  What hello.py takes from pandas and scikit-learn without the scripts defining it:
  the HTML rendering of a data frame, the fitting of a TF-IDF vectoriser (from its
  \<open>stop_words\<close> and \<open>max_features\<close> settings and a corpus to the function that turns one
  document into its feature row, or an exception), and the fitting of a multinomial
  naive Bayes model (from the feature rows and labels to the joint log-likelihood of a
  class for a row, or an exception). The feature rows \<open>'v\<close> and the likelihoods \<open>'s\<close>
  stay abstract.
\<close>

record ('v, 's) text_lib =
  to_html :: "frame \<Rightarrow> string"
  tfidf_fit :: "string option \<Rightarrow> nat option \<Rightarrow> string list \<Rightarrow> error + (string \<Rightarrow> 'v)"
  nb_fit :: "'v list \<Rightarrow> label list \<Rightarrow> error + (label \<Rightarrow> 'v \<Rightarrow> 's)"

record 'v tfidf_vectorizer =
  stop_words :: "string option"
  max_features :: "nat option"
  vec_of :: "(string \<Rightarrow> 'v) option"

definition TfidfVectorizer :: "string option \<Rightarrow> nat option \<Rightarrow> 'v tfidf_vectorizer" where
  "TfidfVectorizer sw mf = \<lparr>stop_words = sw, max_features = mf, vec_of = None\<rparr>"

text \<open>
  \<open>fit_transform\<close> fits the vectoriser on the corpus and returns one feature row per
  document; \<open>transform\<close> applies a fitted vectoriser row by row and raises on one that
  was never fitted.
\<close>

definition fit_transform ::
  "('v, 's) text_lib \<Rightarrow> 'v tfidf_vectorizer \<Rightarrow> string list \<Rightarrow> error + ('v tfidf_vectorizer \<times> 'v list)" where
  "fit_transform lib cv docs =
     (case tfidf_fit lib (stop_words cv) (max_features cv) docs of
        Inl e \<Rightarrow> Inl e
      | Inr f \<Rightarrow> Inr (cv\<lparr>vec_of := Some f\<rparr>, map f docs))"

definition transform :: "'v tfidf_vectorizer \<Rightarrow> string list \<Rightarrow> error + 'v list" where
  "transform cv docs =
     (case vec_of cv of None \<Rightarrow> Inl NotFittedError | Some f \<Rightarrow> Inr (map f docs))"

record ('v, 's) multinomial_nb =
  classes :: "label list"
  jll :: "(label \<Rightarrow> 'v \<Rightarrow> 's) option"

definition MultinomialNB :: "('v, 's) multinomial_nb" where
  "MultinomialNB = \<lparr>classes = [], jll = None\<rparr>"

text \<open>
  \<open>fit\<close> rejects inputs of different lengths and an empty training set, stores the
  sorted distinct labels as the classes, and the fitted likelihoods.
\<close>

definition nb_fit_method ::
  "('v, 's) text_lib \<Rightarrow> ('v, 's) multinomial_nb \<Rightarrow> 'v list \<Rightarrow> column \<Rightarrow> error + ('v, 's) multinomial_nb" where
  "nb_fit_method lib m X y =
     (if length X \<noteq> length (col_values y) \<or> col_values y = [] then Inl ValueError
      else case nb_fit lib X (col_values y) of
             Inl e \<Rightarrow> Inl e
           | Inr f \<Rightarrow> Inr (m\<lparr>classes := np_unique y, jll := Some f\<rparr>))"

text \<open>The index of the first greatest element, as \<open>numpy.argmax\<close> returns it.\<close>

fun argmax :: "'s::linorder list \<Rightarrow> nat" where
  "argmax [] = 0"
| "argmax (x # xs) = (if xs \<noteq> [] \<and> x < xs ! argmax xs then Suc (argmax xs) else 0)"

text \<open>
  \<open>predict\<close>: for each row, the class whose joint log-likelihood is greatest. A model
  that was never fitted raises.
\<close>

definition predict :: "('v, 's::linorder) multinomial_nb \<Rightarrow> 'v list \<Rightarrow> error + label list" where
  "predict m X =
     (case jll m of
        None \<Rightarrow> Inl NotFittedError
      | Some f \<Rightarrow>
          if classes m = [] then Inl NotFittedError
          else Inr (map (\<lambda>x. classes m ! argmax (map (\<lambda>c. f c x) (classes m))) X))"

section \<open>hello.py: the spam service\<close>

text \<open>
  The module globals that the view functions can reach. \<open>spam_debug\<close> and
  \<open>spam_templates\<close> are the debug mode and the templates folder of \<open>app\<close>; \<open>spam_y\<close> and
  \<open>spam_X\<close> are the globals \<open>y\<close> and \<open>X\<close>.
\<close>

record ('v, 's) spam_app =
  spam_debug :: bool
  spam_templates :: templates
  df :: frame
  spam_y :: column
  spam_X :: "'v list"
  df_html :: string
  cvec :: "'v tfidf_vectorizer"
  clf :: "('v, 's) multinomial_nb"

text \<open>
  Lines 9 to 19, and the debug mode that lines 47 and 48 give the application. The file
  \<open>data/SMSSpamCollection.txt\<close> is given as the frame pandas reads from it, or \<open>None\<close>
  when the file is missing; \<open>name\<close> is the module's \<open>__name__\<close>.
\<close>

definition read_csv :: "'r option \<Rightarrow> error + 'r" where
  "read_csv file = (case file of None \<Rightarrow> Inl FileNotFoundError | Some rows \<Rightarrow> Inr rows)"

definition spam_startup ::
  "('v, 's) text_lib \<Rightarrow> string \<Rightarrow> templates \<Rightarrow> frame option \<Rightarrow> error + ('v, 's) spam_app" where
  "spam_startup lib name ts file =
     (case read_csv file of
        Inl e \<Rightarrow> Inl e
      | Inr df0 \<Rightarrow>
          (let y0 = df_target df0;
               X0 = df_msg df0;
               df_html0 = to_html lib df0;
               cvec0 = TfidfVectorizer (Some ''english'') (Some 300)
           in (case fit_transform lib cvec0 X0 of
                 Inl e \<Rightarrow> Inl e
               | Inr (cvec1, X1) \<Rightarrow>
                   (case nb_fit_method lib MultinomialNB X1 y0 of
                      Inl e \<Rightarrow> Inl e
                    | Inr clf1 \<Rightarrow>
                        Inr \<lparr>spam_debug = run_debug name, spam_templates = ts, df = df0,
                             spam_y = y0, spam_X = X1, df_html = df_html0, cvec = cvec1,
                             clf = clf1\<rparr>))))"

text \<open>The view functions, lines 22 to 45.\<close>

definition table :: "('v, 's) spam_app \<Rightarrow> error + body" where
  "table st =
     (case render_template (spam_templates st) ''table.html'' [(''table'', TStr (df_html st))] of
        Inl e \<Rightarrow> Inl e
      | Inr page \<Rightarrow> Inr (Html page))"

definition is_spam :: "('v, 's::linorder) spam_app \<Rightarrow> (string \<times> string) list \<Rightarrow> error + body" where
  "is_spam st a =
     (case args_getitem a ''msg'' of
        Inl e \<Rightarrow> Inl e
      | Inr s \<Rightarrow>
          (let msg = pd_Series s
           in (case transform (cvec st) msg of
                 Inl e \<Rightarrow> Inl e
               | Inr X_new \<Rightarrow>
                   (case predict (clf st) X_new of
                      Inl e \<Rightarrow> Inl e
                    | Inr score \<Rightarrow>
                        (case score of
                           [] \<Rightarrow> Inl IndexError
                         | l # _ \<Rightarrow> jsonify [(''prediction'', l)])))))"

definition hello :: "error + body" where
  "hello = Inr (Html ([CHR 0x0A] @ ''    <body>'' @ [CHR 0x0A] @ ''    <h2> Hello World! </h2>''
                      @ [CHR 0x0A] @ ''    </body>'' @ [CHR 0x0A] @ ''    ''))"

definition greet :: "('v, 's) spam_app \<Rightarrow> string \<Rightarrow> error + body" where
  "greet st name =
     (case render_template (spam_templates st) ''index.html'' [(''name'', TStr name)] of
        Inl e \<Rightarrow> Inl e
      | Inr page \<Rightarrow> Inr (Html page))"

text \<open>
  The routes declared by the decorators. The rule \<open>/greet/<name>\<close> uses the default string
  converter: it matches one non-empty path segment, that is, text without a slash.
\<close>

definition is_greet :: "string \<Rightarrow> bool" where
  "is_greet p \<longleftrightarrow> take 7 p = ''/greet/'' \<and> drop 7 p \<noteq> [] \<and> CHR ''/'' \<notin> set (drop 7 p)"

definition spam_dispatch :: "('v, 's::linorder) spam_app \<Rightarrow> request \<Rightarrow> error + body" where
  "spam_dispatch st req =
     (case req of GET p a \<Rightarrow>
        if p = ''/table'' then table st
        else if p = ''/is_spam'' then is_spam st a
        else if p = ''/'' then hello
        else if is_greet p then greet st (drop 7 p)
        else Inl NotFound)"

text \<open>
  One request: the response and the module globals after it. No view function assigns
  a global, so the globals come back as they were.
\<close>

definition spam_wsgi_app :: "('v, 's::linorder) spam_app \<Rightarrow> request \<Rightarrow> response \<times> ('v, 's) spam_app" where
  "spam_wsgi_app st req = (make_response (spam_debug st) (spam_dispatch st req), st)"

fun spam_serve :: "('v, 's::linorder) spam_app \<Rightarrow> request list \<Rightarrow> response list \<times> ('v, 's) spam_app" where
  "spam_serve st [] = ([], st)"
| "spam_serve st (r # rs) =
     (case spam_wsgi_app st r of (resp, st') \<Rightarrow>
        (case spam_serve st' rs of (resps, st'') \<Rightarrow> (resp # resps, st'')))"

subsection \<open>The template of the greeting page\<close>

text \<open>
  Modelled from the spec: the template file \<open>templates/index.html\<close> that \<open>greet\<close> renders
  is not among the sources. The spec says of it that the page is rendered "with
  \<open><name>\<close> interpolated" and that "the templating library is responsible for
  output-escaping": the page is some fixed text, the escaped value of \<open>name\<close>, and some
  more fixed text. The escaping is that of the templating library for \<open>.html\<close> files:
  the five characters with a meaning in HTML become entities.
\<close>

fun escape_char :: "char \<Rightarrow> string" where
  "escape_char c =
     (if c = CHR ''&'' then ''&amp;''
      else if c = CHR ''<'' then ''&lt;''
      else if c = CHR ''>'' then ''&gt;''
      else if c = CHR 0x27 then ''&#39;''
      else if c = CHR 0x22 then ''&#34;''
      else [c])"

definition escape :: "string \<Rightarrow> string" where
  "escape s = concat (map escape_char s)"

definition index_html :: "string \<Rightarrow> string \<Rightarrow> template" where
  "index_html before after ctx =
     (case map_of ctx ''name'' of
        Some (TStr n) \<Rightarrow> before @ escape n @ after
      | _ \<Rightarrow> before @ after)"

section \<open>The library calls of app.py\<close>

text \<open>
  The columns of \<open>../data/bank.csv\<close> that the script reads; \<open>bank_y\<close> is the column \<open>y\<close>.
\<close>

record bank_row =
  age :: int
  duration :: int
  loan :: string
  marital :: string
  job :: string
  bank_y :: string

text \<open>
  \<open>pd.get_dummies(frame, drop_first=True)\<close> on three text columns: per column, one 0/1
  indicator for each of its sorted distinct values but the first; the indicators of the
  first column, then of the second, then of the third.
\<close>

definition dummies :: "string list \<Rightarrow> int list list" where
  "dummies col =
     (let cats = tl (sort (remdups col))
      in map (\<lambda>v. map (\<lambda>c. if v = c then 1 else 0) cats) col)"

definition get_dummies :: "(string \<times> string \<times> string) list \<Rightarrow> int list list" where
  "get_dummies rows =
     (let l = dummies (map fst rows);
          m = dummies (map (\<lambda>r. fst (snd r)) rows);
          j = dummies (map (\<lambda>r. snd (snd r)) rows)
      in map (\<lambda>(a, b, c). a @ b @ c) (zip l (zip m j)))"

text \<open>
  What app.py takes from scikit-learn without the script defining it: the random split
  into a training and a held-out part, the fitting of a logistic regression with a named
  solver, and the predictions that cross-validation over \<open>cv\<close> folds makes with an
  estimator. Each can raise. \<open>'c\<close> is what a fitted regression holds.
\<close>

record 'c logistic_regression =
  solver :: string
  coef :: "'c option"

record 'c bank_lib =
  train_test_split ::
    "int list list \<Rightarrow> string list \<Rightarrow>
       error + (int list list \<times> int list list \<times> string list \<times> string list)"
  lr_fit :: "string \<Rightarrow> int list list \<Rightarrow> string list \<Rightarrow> error + 'c"
  cv_predict ::
    "'c logistic_regression \<Rightarrow> int list list \<Rightarrow> string list \<Rightarrow> nat \<Rightarrow> error + string list"

definition LogisticRegression :: "string \<Rightarrow> 'c logistic_regression" where
  "LogisticRegression s = \<lparr>solver = s, coef = None\<rparr>"

definition lr_fit_method ::
  "'c bank_lib \<Rightarrow> 'c logistic_regression \<Rightarrow> int list list \<Rightarrow> string list \<Rightarrow> error + 'c logistic_regression" where
  "lr_fit_method lib m X y =
     (case lr_fit lib (solver m) X y of
        Inl e \<Rightarrow> Inl e
      | Inr c \<Rightarrow> Inr (m\<lparr>coef := Some c\<rparr>))"

text \<open>
  \<open>cross_val_predict\<close> rejects inputs of different lengths and fewer samples than folds
  before it predicts anything.
\<close>

definition cross_val_predict ::
  "'c bank_lib \<Rightarrow> 'c logistic_regression \<Rightarrow> int list list \<Rightarrow> string list \<Rightarrow> nat \<Rightarrow> error + string list" where
  "cross_val_predict lib est X y cv =
     (if length X \<noteq> length y then Inl ValueError
      else if length X < cv then Inl ValueError
      else cv_predict lib est X y cv)"

text \<open>
  \<open>accuracy_score\<close>: the fraction of positions where the prediction equals the label.
  Inputs of different lengths raise; over no samples the average is not a number.
\<close>

definition accuracy_score :: "string list \<Rightarrow> string list \<Rightarrow> error + pyfloat" where
  "accuracy_score y_true y_pred =
     (if length y_true \<noteq> length y_pred then Inl ValueError
      else if y_true = [] then Inr NaN
      else Inr (Float (of_nat (length (filter (\<lambda>(t, p). t = p) (zip y_true y_pred)))
                       / of_nat (length y_true))))"

section \<open>app.py: the bank service\<close>

text \<open>
  The module globals that the view function can reach. \<open>bank_debug\<close> and \<open>bank_templates\<close>
  are the debug mode and the templates folder of \<open>app\<close>, \<open>bank_clf\<close> the global \<open>clf\<close>. The
  global \<open>jobs\<close> (the value counts of one column) is read by nothing and is left out.
\<close>

record 'c bank_app =
  bank_debug :: bool
  bank_templates :: templates
  bank :: "bank_row list"
  bank_clf :: "'c logistic_regression"
  y_test :: "string list"
  preds :: "string list"
  score :: pyfloat

text \<open>
  Lines 14 to 16: the two numeric columns, then the dummies of the three text columns,
  side by side.
\<close>

definition bank_X :: "bank_row list \<Rightarrow> int list list" where
  "bank_X bank0 =
     (let X_num = map (\<lambda>r. [age r, duration r]) bank0;
          X_dum = get_dummies (map (\<lambda>r. (loan r, marital r, job r)) bank0)
      in map (\<lambda>(n, d). n @ d) (zip X_num X_dum))"

text \<open>Lines 12 to 28, and the debug mode that lines 34 and 35 give the application.\<close>

definition bank_startup ::
  "'c bank_lib \<Rightarrow> string \<Rightarrow> templates \<Rightarrow> bank_row list option \<Rightarrow> error + 'c bank_app" where
  "bank_startup lib name ts file =
     (case read_csv file of
        Inl e \<Rightarrow> Inl e
      | Inr bank0 \<Rightarrow>
          (let X = bank_X bank0;
               y = map bank_y bank0;
               clf0 = LogisticRegression ''newton-cg''
           in (case train_test_split lib X y of
                 Inl e \<Rightarrow> Inl e
               | Inr (X_train, X_test, y_train, y_test0) \<Rightarrow>
                   (case lr_fit_method lib clf0 X_train y_train of
                      Inl e \<Rightarrow> Inl e
                    | Inr clf1 \<Rightarrow>
                        (case cross_val_predict lib clf1 X_test y_test0 5 of
                           Inl e \<Rightarrow> Inl e
                         | Inr preds0 \<Rightarrow>
                             (case accuracy_score y_test0 preds0 of
                                Inl e \<Rightarrow> Inl e
                              | Inr score0 \<Rightarrow>
                                  Inr \<lparr>bank_debug = run_debug name, bank_templates = ts,
                                       bank = bank0, bank_clf = clf1, y_test = y_test0,
                                       preds = preds0, score = score0\<rparr>))))))"

definition bank_hello :: "'c bank_app \<Rightarrow> error + body" where
  "bank_hello st =
     (case render_template (bank_templates st) ''report.html'' [(''a'', TNum (score st))] of
        Inl e \<Rightarrow> Inl e
      | Inr page \<Rightarrow> Inr (Html page))"

definition bank_dispatch :: "'c bank_app \<Rightarrow> request \<Rightarrow> error + body" where
  "bank_dispatch st req =
     (case req of GET p a \<Rightarrow> if p = ''/'' then bank_hello st else Inl NotFound)"

definition bank_wsgi_app :: "'c bank_app \<Rightarrow> request \<Rightarrow> response \<times> 'c bank_app" where
  "bank_wsgi_app st req = (make_response (bank_debug st) (bank_dispatch st req), st)"

fun bank_serve :: "'c bank_app \<Rightarrow> request list \<Rightarrow> response list \<times> 'c bank_app" where
  "bank_serve st [] = ([], st)"
| "bank_serve st (r # rs) =
     (case bank_wsgi_app st r of (resp, st') \<Rightarrow>
        (case bank_serve st' rs of (resps, st'') \<Rightarrow> (resp # resps, st'')))"

section \<open>The vectoriser and the classifier of hello.py in more detail\<close>







section \<open>A small instance\<close>

text \<open>
  Stand-ins for the libraries and the data files, small enough to evaluate: a
  vectoriser whose feature row is the length of the message, a classifier that scores
  \<open>spam\<close> by that length and every other class by 3, a split that holds out everything
  after the first two rows, and a cross-validation that always predicts \<open>no\<close>. Both
  applications are run as scripts, \<open>__name__\<close> being \<open>__main__\<close>.
\<close>

definition demo_lib :: "(nat, int) text_lib" where
  "demo_lib =
     \<lparr>to_html = (\<lambda>d. concat (map (\<lambda>m. m @ ''; '') (df_msg d))),
      tfidf_fit = (\<lambda>sw mf docs. if docs = [] then Inl ValueError else Inr length),
      nb_fit = (\<lambda>X y. Inr (\<lambda>c x. if c = LStr ''spam'' then int x else 3))\<rparr>"

definition demo_df :: frame where
  "demo_df = TextTarget [(''ham'', ''ok''), (''spam'', ''WIN FREE CASH''), (''ham'', ''see you'')]"

definition demo_templates :: templates where
  "demo_templates =
     [''index.html'' \<mapsto> index_html ''<h1>Hello '' ''!</h1>'',
      ''table.html'' \<mapsto> (\<lambda>ctx. case map_of ctx ''table'' of Some (TStr t) \<Rightarrow> ''<div>'' @ t @ ''</div>'' | _ \<Rightarrow> ''<div></div>''),
      ''report.html'' \<mapsto> (\<lambda>ctx. case map_of ctx ''a'' of Some (TNum (Float q)) \<Rightarrow> ''<p>score</p>'' | _ \<Rightarrow> ''<p></p>'')]"

definition demo_app :: "(nat, int) spam_app" where
  "demo_app =
     \<lparr>spam_debug = True, spam_templates = demo_templates, df = demo_df,
      spam_y = StrCol [''ham'', ''spam'', ''ham''],
      spam_X = [2, 13, 7], df_html = ''ok; WIN FREE CASH; see you; '',
      cvec = \<lparr>stop_words = Some ''english'', max_features = Some 300, vec_of = Some length\<rparr>,
      clf = \<lparr>classes = [LStr ''ham'', LStr ''spam''],
             jll = Some (\<lambda>c x. if c = LStr ''spam'' then int x else 3)\<rparr>\<rparr>"

definition demo_bank_lib :: "unit bank_lib" where
  "demo_bank_lib =
     \<lparr>train_test_split = (\<lambda>X y. Inr (take 2 X, drop 2 X, take 2 y, drop 2 y)),
      lr_fit = (\<lambda>s X y. Inr ()),
      cv_predict = (\<lambda>est X y cv. Inr (map (\<lambda>_. ''no'') y))\<rparr>"

definition demo_row :: "int \<Rightarrow> string \<Rightarrow> string \<Rightarrow> bank_row" where
  "demo_row a j out =
     \<lparr>age = a, duration = 100, loan = ''no'', marital = ''single'', job = j, bank_y = out\<rparr>"

definition demo_bank :: "bank_row list" where
  "demo_bank =
     [demo_row 30 ''admin'' ''no'', demo_row 41 ''technician'' ''yes'',
      demo_row 25 ''admin'' ''no'', demo_row 52 ''retired'' ''yes'',
      demo_row 38 ''admin'' ''no'', demo_row 47 ''technician'' ''no'',
      demo_row 29 ''retired'' ''yes'']"

definition demo_bank_app :: "unit bank_app" where
  "demo_bank_app =
     \<lparr>bank_debug = True, bank_templates = demo_templates, bank = demo_bank,
      bank_clf = \<lparr>solver = ''newton-cg'', coef = Some ()\<rparr>,
      y_test = [''no'', ''yes'', ''no'', ''no'', ''yes''],
      preds = [''no'', ''no'', ''no'', ''no'', ''no''],
      score = Float (3 / 5)\<rparr>"





section \<open>Facts about the library calls\<close>

lemma argmax_less: "xs \<noteq> [] \<Longrightarrow> argmax xs < length xs"
  by (induction xs) auto

lemma predict_fitted:
  assumes "jll m = Some g" and "classes m \<noteq> []"
  shows "predict m X = Inr (map (\<lambda>x. classes m ! argmax (map (\<lambda>c. g c x) (classes m))) X)"
  using assms by (simp add: predict_def)

lemma predict_in_classes:
  assumes "predict m X = Inr ls"
  shows "set ls \<subseteq> set (classes m)"
proof -
  from assms obtain g where g: "jll m = Some g" and ne: "classes m \<noteq> []"
    by (auto simp: predict_def split: option.splits if_splits)
  have "\<And>x. classes m ! argmax (map (\<lambda>c. g c x) (classes m)) \<in> set (classes m)"
    using argmax_less [of "map (\<lambda>c. g c _) (classes m)"] ne by simp
  with assms g ne show ?thesis
    by (auto simp: predict_fitted)
qed

lemma jsonify_text: "jsonify [(k, LStr t)] = Inr (Json (JObj [(k, JStr t)]))"
  by (simp add: jsonify_def)

lemma jsonify_int: "jsonify [(k, LInt n)] = Inl TypeError"
  by (simp add: jsonify_def)

lemma set_np_unique: "set (np_unique y) = set (col_values y)"
  by (cases y) simp_all

lemma np_unique_nonempty: "col_values y \<noteq> [] \<Longrightarrow> np_unique y \<noteq> []"
  by (metis set_np_unique set_empty)

lemma text_classes:
  assumes "l \<in> set (np_unique (df_target (TextTarget rows)))"
  shows "\<exists>t. l = LStr t"
  using assms by auto

lemma int_classes:
  assumes "l \<in> set (np_unique (df_target (IntTarget rows)))"
  shows "\<exists>n. l = LInt n"
  using assms by auto

section \<open>Facts about hello.py\<close>

lemma spam_serve_state: "snd (spam_serve st rs) = st"
  by (induction rs arbitrary: st) (simp_all add: spam_wsgi_app_def split_beta)

lemma spam_serve_responses:
  "fst (spam_serve st rs) = map (\<lambda>r. make_response (spam_debug st) (spam_dispatch st r)) rs"
  by (induction rs arbitrary: st) (simp_all add: spam_wsgi_app_def split_beta)

lemma spam_serve_nth:
  "i < length rs \<Longrightarrow>
     fst (spam_serve st rs) ! i = make_response (spam_debug st) (spam_dispatch st (rs ! i))"
  by (simp add: spam_serve_responses)

lemma spam_startup_fits:
  assumes "spam_startup lib name ts (Some df0) = Inr st"
  shows "\<exists>f g. tfidf_fit lib (Some ''english'') (Some 300) (df_msg df0) = Inr f
           \<and> nb_fit lib (map f (df_msg df0)) (col_values (df_target df0)) = Inr g
           \<and> vec_of (cvec st) = Some f \<and> jll (clf st) = Some g"
  using assms
  by (auto simp: spam_startup_def read_csv_def fit_transform_def TfidfVectorizer_def
      nb_fit_method_def MultinomialNB_def Let_def
      split: sum.splits if_splits)

lemma spam_startup_fitted:
  assumes "spam_startup lib name ts file = Inr st"
  shows "\<exists>f g. vec_of (cvec st) = Some f \<and> jll (clf st) = Some g \<and> classes (clf st) \<noteq> []"
  using assms
  by (auto simp: spam_startup_def read_csv_def fit_transform_def TfidfVectorizer_def
      nb_fit_method_def MultinomialNB_def Let_def np_unique_nonempty
      split: option.splits sum.splits if_splits)

lemma spam_startup_classes:
  assumes "spam_startup lib name ts (Some df0) = Inr st"
  shows "classes (clf st) = np_unique (df_target df0)"
  using assms
  by (auto simp: spam_startup_def read_csv_def fit_transform_def TfidfVectorizer_def
      nb_fit_method_def MultinomialNB_def Let_def
      split: sum.splits if_splits)

lemma spam_startup_cached:
  assumes "spam_startup lib name ts (Some df0) = Inr st"
  shows "df_html st = to_html lib df0 \<and> spam_templates st = ts \<and> df st = df0
       \<and> spam_debug st = run_debug name"
  using assms
  by (auto simp: spam_startup_def read_csv_def Let_def split: sum.splits)

lemma spam_startup_cvec:
  assumes "spam_startup lib name ts (Some df0) = Inr st"
  shows "\<exists>f. tfidf_fit lib (Some ''english'') (Some 300) (df_msg df0) = Inr f
           \<and> cvec st = \<lparr>stop_words = Some ''english'', max_features = Some 300, vec_of = Some f\<rparr>
           \<and> spam_X st = map f (df_msg df0)
           \<and> nb_fit_method lib MultinomialNB (map f (df_msg df0)) (df_target df0) = Inr (clf st)"
  using assms
  by (auto simp: spam_startup_def read_csv_def fit_transform_def TfidfVectorizer_def
      Let_def split: sum.splits)

lemma is_spam_fitted:
  assumes "vec_of (cvec st) = Some f" and "jll (clf st) = Some g" and "classes (clf st) \<noteq> []"
    and "map_of a ''msg'' = Some s"
  shows "is_spam st a = jsonify [(''prediction'',
           classes (clf st) ! argmax (map (\<lambda>c. g c (f s)) (classes (clf st))))]"
  using assms
  by (simp add: is_spam_def args_getitem_def pd_Series_def transform_def predict_fitted)

lemma dispatch_table: "spam_dispatch st (GET ''/table'' a) = table st"
  by (simp add: spam_dispatch_def)

lemma dispatch_is_spam: "spam_dispatch st (GET ''/is_spam'' a) = is_spam st a"
  by (simp add: spam_dispatch_def)

text \<open>
  With a target column that pandas typed as integers, the module loads and the
  classifier predicts, but the label cannot be serialised: every prediction request
  ends in \<open>TypeError\<close>.
\<close>

lemma is_spam_int_target:
  assumes "spam_startup lib name ts (Some (IntTarget rows)) = Inr st"
    and "map_of a ''msg'' = Some s"
  shows "is_spam st a = Inl TypeError"
proof -
  from spam_startup_fitted [OF assms(1)] obtain f g where
    f: "vec_of (cvec st) = Some f" and g: "jll (clf st) = Some g"
    and ne: "classes (clf st) \<noteq> []"
    by blast
  let ?l = "classes (clf st) ! argmax (map (\<lambda>c. g c (f s)) (classes (clf st)))"
  have "?l \<in> set (classes (clf st))"
    using argmax_less [of "map (\<lambda>c. g c (f s)) (classes (clf st))"] ne by simp
  then obtain n where "?l = LInt n"
    unfolding spam_startup_classes [OF assms(1)] using int_classes by blast
  with is_spam_fitted [OF f g ne assms(2)] show ?thesis
    by (simp add: jsonify_int)
qed

lemma demo_startup:
  "spam_startup demo_lib ''__main__'' demo_templates (Some demo_df) = Inr demo_app"
  by (simp add: spam_startup_def read_csv_def fit_transform_def TfidfVectorizer_def
      nb_fit_method_def MultinomialNB_def Let_def demo_lib_def demo_df_def demo_app_def
      run_debug_def)

section \<open>The claims about hello.py\<close>

text \<open>
  C1. Once the module has loaded a dataset whose target column is text, a request to
  \<open>/is_spam\<close> whose query string has a \<open>msg\<close> parameter is answered as follows: the text
  is wrapped into a one-element series; the vectoriser that was fitted on the \<open>msg\<close>
  column turns it into one feature row; the classifier that was fitted on the rows of
  that vectoriser predicts exactly one label for the row, the class of the greatest
  joint log-likelihood; and the response is the JSON object whose only key is
  \<open>prediction\<close> and whose value is that label (status 200, globals unchanged).
\<close>

theorem is_spam_contract:
  assumes "spam_startup lib name ts (Some (TextTarget rows)) = Inr st"
    and "map_of a ''msg'' = Some s"
  shows "\<exists>f g t. tfidf_fit lib (Some ''english'') (Some 300) (map snd rows) = Inr f
           \<and> nb_fit lib (map f (map snd rows)) (map LStr (map fst rows)) = Inr g
           \<and> transform (cvec st) (pd_Series s) = Inr [f s]
           \<and> predict (clf st) [f s] = Inr [LStr t]
           \<and> LStr t = classes (clf st) ! argmax (map (\<lambda>c. g c (f s)) (classes (clf st)))
           \<and> is_spam st a = Inr (Json (JObj [(''prediction'', JStr t)]))
           \<and> spam_wsgi_app st (GET ''/is_spam'' a)
               = (Response 200 (Json (JObj [(''prediction'', JStr t)])), st)"
proof -
  from spam_startup_fits [OF assms(1)] obtain f g where
    F: "tfidf_fit lib (Some ''english'') (Some 300) (map snd rows) = Inr f"
    and G: "nb_fit lib (map f (map snd rows)) (map LStr (map fst rows)) = Inr g"
    and f: "vec_of (cvec st) = Some f" and g: "jll (clf st) = Some g"
    by auto
  have cl: "classes (clf st) = np_unique (df_target (TextTarget rows))"
    using assms(1) by (rule spam_startup_classes)
  from spam_startup_fitted [OF assms(1)] have ne: "classes (clf st) \<noteq> []"
    by blast
  let ?l = "classes (clf st) ! argmax (map (\<lambda>c. g c (f s)) (classes (clf st)))"
  have "?l \<in> set (classes (clf st))"
    using argmax_less [of "map (\<lambda>c. g c (f s)) (classes (clf st))"] ne by simp
  then obtain t where t: "?l = LStr t"
    unfolding cl using text_classes by blast
  have 1: "transform (cvec st) (pd_Series s) = Inr [f s]"
    using f by (simp add: transform_def pd_Series_def)
  have 2: "predict (clf st) [f s] = Inr [LStr t]"
    using g ne t by (simp add: predict_fitted)
  have 3: "is_spam st a = Inr (Json (JObj [(''prediction'', JStr t)]))"
    using is_spam_fitted [OF f g ne assms(2)] t by (simp add: jsonify_text)
  have 4: "spam_wsgi_app st (GET ''/is_spam'' a)
             = (Response 200 (Json (JObj [(''prediction'', JStr t)])), st)"
    using 3 by (simp add: spam_wsgi_app_def dispatch_is_spam make_response_def)
  from F G 1 2 t [symmetric] 3 4 show ?thesis
    by (intro exI conjI)
qed

theorem is_spam_contract_witness:
  "spam_startup demo_lib ''__main__'' demo_templates
     (Some (TextTarget [(''ham'', ''ok''), (''spam'', ''WIN FREE CASH''), (''ham'', ''see you'')]))
     = Inr demo_app
   \<and> map_of [(''msg'', ''WIN FREE CASH NOW'')] ''msg'' = Some ''WIN FREE CASH NOW''
   \<and> is_spam demo_app [(''msg'', ''WIN FREE CASH NOW'')]
       = Inr (Json (JObj [(''prediction'', JStr ''spam'')]))
   \<and> spam_wsgi_app demo_app (GET ''/is_spam'' [(''msg'', ''WIN FREE CASH NOW'')])
       = (Response 200 (Json (JObj [(''prediction'', JStr ''spam'')])), demo_app)"
proof -
  let ?a = "[(''msg'', ''WIN FREE CASH NOW'')]"
  have d: "spam_startup demo_lib ''__main__'' demo_templates
     (Some (TextTarget [(''ham'', ''ok''), (''spam'', ''WIN FREE CASH''), (''ham'', ''see you'')]))
     = Inr demo_app"
    using demo_startup by (simp add: demo_df_def)
  have m: "map_of ?a ''msg'' = Some ''WIN FREE CASH NOW''"
    by simp
  from is_spam_contract [OF d m] obtain f g t where
    l: "LStr t = classes (clf demo_app)
                   ! argmax (map (\<lambda>c. g c (f ''WIN FREE CASH NOW'')) (classes (clf demo_app)))"
    and f: "tfidf_fit demo_lib (Some ''english'') (Some 300)
              (map snd [(''ham'', ''ok''), (''spam'', ''WIN FREE CASH''), (''ham'', ''see you'')]) = Inr f"
    and g: "nb_fit demo_lib (map f (map snd [(''ham'', ''ok''), (''spam'', ''WIN FREE CASH''), (''ham'', ''see you'')]))
              (map LStr (map fst [(''ham'', ''ok''), (''spam'', ''WIN FREE CASH''), (''ham'', ''see you'')])) = Inr g"
    and r: "is_spam demo_app ?a = Inr (Json (JObj [(''prediction'', JStr t)]))"
    and w: "spam_wsgi_app demo_app (GET ''/is_spam'' ?a)
             = (Response 200 (Json (JObj [(''prediction'', JStr t)])), demo_app)"
    by blast
  from f have f': "f = length"
    by (simp add: demo_lib_def)
  from g have g': "g = (\<lambda>c x. if c = LStr ''spam'' then int x else 3)"
    by (simp add: demo_lib_def)
  from l have "t = ''spam''"
    by (simp add: f' g' demo_app_def)
  with d m r w show ?thesis
    by simp
qed

lemma table_eq:
  "table st = (case spam_templates st ''table.html'' of
                 None \<Rightarrow> Inl (TemplateNotFound ''table.html'')
               | Some t \<Rightarrow> Inr (Html (t [(''table'', TStr (df_html st))])))"
  by (simp add: table_def render_template_def split: option.splits)

text \<open>
  C2. The HTML of the data frame is computed by the module-level code, once, and kept in
  the global \<open>df_html\<close>; serving requests never changes it, and \<open>table\<close> reads the global
  rather than the data frame (a different \<open>df\<close> would give the same page). So any two
  requests to \<open>/table\<close> in one run, whatever else is served between them and whatever
  their query strings, get the same response: the template \<open>table.html\<close> rendered with
  that string.
\<close>

theorem table_cached:
  assumes "spam_startup lib name ts (Some df0) = Inr st"
    and "i < length rs" and "j < length rs"
    and "rs ! i = GET ''/table'' a" and "rs ! j = GET ''/table'' b"
  shows "df_html st = to_html lib df0
       \<and> df_html (snd (spam_serve st rs)) = to_html lib df0
       \<and> table (st\<lparr>df := d\<rparr>) = table st
       \<and> fst (spam_serve st rs) ! i = fst (spam_serve st rs) ! j
       \<and> fst (spam_serve st rs) ! i
           = make_response (run_debug name)
               (case ts ''table.html'' of
                  None \<Rightarrow> Inl (TemplateNotFound ''table.html'')
                | Some t \<Rightarrow> Inr (Html (t [(''table'', TStr (to_html lib df0))])))"
proof -
  from spam_startup_cached [OF assms(1)]
  have h: "df_html st = to_html lib df0" and t: "spam_templates st = ts"
    and dbg: "spam_debug st = run_debug name"
    by simp_all
  have i: "fst (spam_serve st rs) ! i = make_response (run_debug name) (table st)"
    using assms(2,4) by (simp add: spam_serve_nth dispatch_table dbg)
  have j: "fst (spam_serve st rs) ! j = make_response (run_debug name) (table st)"
    using assms(3,5) by (simp add: spam_serve_nth dispatch_table dbg)
  have d: "table (st\<lparr>df := d\<rparr>) = table st"
    by (simp add: table_def)
  have e: "table st = (case ts ''table.html'' of
                         None \<Rightarrow> Inl (TemplateNotFound ''table.html'')
                       | Some t \<Rightarrow> Inr (Html (t [(''table'', TStr (to_html lib df0))])))"
    by (cases "ts ''table.html''") (simp_all add: table_def render_template_def h t)
  show ?thesis
    unfolding i j d spam_serve_state e [symmetric] using h by simp
qed

theorem table_cached_witness:
  "spam_startup demo_lib ''__main__'' demo_templates (Some demo_df) = Inr demo_app
   \<and> fst (spam_serve demo_app [GET ''/table'' [], GET ''/is_spam'' [(''msg'', ''hi'')], GET ''/table'' [(''page'', ''2'')]]) ! 0
       = fst (spam_serve demo_app [GET ''/table'' [], GET ''/is_spam'' [(''msg'', ''hi'')], GET ''/table'' [(''page'', ''2'')]]) ! 2
   \<and> fst (spam_serve demo_app [GET ''/table'' [], GET ''/is_spam'' [(''msg'', ''hi'')], GET ''/table'' [(''page'', ''2'')]]) ! 0
       = Response 200 (Html ''<div>ok; WIN FREE CASH; see you; </div>'')"
proof -
  let ?rs = "[GET ''/table'' [], GET ''/is_spam'' [(''msg'', ''hi'')], GET ''/table'' [(''page'', ''2'')]]"
  have 0: "0 < length ?rs" and 2: "2 < length ?rs"
    by simp_all
  have a: "?rs ! 0 = GET ''/table'' []" and b: "?rs ! 2 = GET ''/table'' [(''page'', ''2'')]"
    by simp_all
  have ev: "make_response (run_debug ''__main__'')
              (case demo_templates ''table.html'' of
                 None \<Rightarrow> Inl (TemplateNotFound ''table.html'')
               | Some t \<Rightarrow> Inr (Html (t [(''table'', TStr (to_html demo_lib demo_df))])))
      = Response 200 (Html ''<div>ok; WIN FREE CASH; see you; </div>'')"
    by (simp add: demo_templates_def demo_lib_def demo_df_def make_response_def)
  from table_cached [OF demo_startup 0 2 a b, of "IntTarget []"]
  have "fst (spam_serve demo_app ?rs) ! 0 = fst (spam_serve demo_app ?rs) ! 2"
    and "fst (spam_serve demo_app ?rs) ! 0
           = Response 200 (Html ''<div>ok; WIN FREE CASH; see you; </div>'')"
    unfolding ev by blast+
  with demo_startup show ?thesis
    by (intro conjI)
qed

text \<open>
  C3. A request to \<open>/is_spam\<close> without a \<open>msg\<close> parameter: the view function raises
  \<open>BadRequestKeyError\<close> at the lookup, before the vectoriser or the classifier is touched,
  and the framework answers with an error page whose status is not a 2xx one. The status
  is 500 when the script runs as written, as \<open>__main__\<close> and so in debug mode, where the
  framework traps the error; it is 400 when the application is served without debug.
  The globals are unchanged and the requests that follow are served as usual.
\<close>

theorem is_spam_missing_msg:
  assumes "spam_startup lib name ts file = Inr st" and "map_of a ''msg'' = None"
  shows "is_spam st a = Inl (BadRequestKeyError ''msg'')
       \<and> spam_wsgi_app st (GET ''/is_spam'' a)
           = (Response (if name = ''__main__'' then 500 else 400)
                (ErrorPage (BadRequestKeyError ''msg'')), st)
       \<and> \<not> (200 \<le> status (fst (spam_wsgi_app st (GET ''/is_spam'' a)))
            \<and> status (fst (spam_wsgi_app st (GET ''/is_spam'' a))) < 300)
       \<and> spam_serve st (GET ''/is_spam'' a # rs)
           = (Response (if name = ''__main__'' then 500 else 400)
                (ErrorPage (BadRequestKeyError ''msg'')) # fst (spam_serve st rs), st)"
proof -
  have dbg: "spam_debug st = (name = ''__main__'')"
    using assms(1)
    by (auto simp: spam_startup_def read_csv_def Let_def run_debug_def
        split: sum.splits option.splits)
  have 1: "is_spam st a = Inl (BadRequestKeyError ''msg'')"
    using assms(2) by (simp add: is_spam_def args_getitem_def)
  have 2: "spam_wsgi_app st (GET ''/is_spam'' a)
           = (Response (if name = ''__main__'' then 500 else 400)
                (ErrorPage (BadRequestKeyError ''msg'')), st)"
    by (simp add: spam_wsgi_app_def dispatch_is_spam 1 make_response_def dbg)
  have 3: "spam_serve st (GET ''/is_spam'' a # rs)
           = (Response (if name = ''__main__'' then 500 else 400)
                (ErrorPage (BadRequestKeyError ''msg'')) # fst (spam_serve st rs),
              snd (spam_serve st rs))"
    by (simp add: 2 split_beta)
  show ?thesis
    unfolding 3 spam_serve_state 2 using 1 by simp
qed

theorem is_spam_missing_msg_witness:
  "spam_startup demo_lib ''__main__'' demo_templates (Some demo_df) = Inr demo_app
   \<and> map_of [(''text'', ''hello'')] ''msg'' = None
   \<and> is_spam demo_app [(''text'', ''hello'')] = Inl (BadRequestKeyError ''msg'')
   \<and> spam_wsgi_app demo_app (GET ''/is_spam'' [(''text'', ''hello'')])
       = (Response 500 (ErrorPage (BadRequestKeyError ''msg'')), demo_app)
   \<and> spam_serve demo_app [GET ''/is_spam'' [(''text'', ''hello'')], GET ''/'' []]
       = ([Response 500 (ErrorPage (BadRequestKeyError ''msg'')), make_response True hello],
          demo_app)"
proof -
  have m: "map_of [(''text'', ''hello'')] ''msg'' = None"
    by simp
  have r: "fst (spam_serve demo_app [GET ''/'' []]) = [make_response True hello]"
    by (simp add: spam_wsgi_app_def spam_dispatch_def demo_app_def)
  have n: "(if ''__main__'' = ''__main__'' then 500 else 400) = (500::nat)"
    by simp
  from is_spam_missing_msg [OF demo_startup m, of "[GET ''/'' []]"]
  have "is_spam demo_app [(''text'', ''hello'')] = Inl (BadRequestKeyError ''msg'')"
    and "spam_wsgi_app demo_app (GET ''/is_spam'' [(''text'', ''hello'')])
       = (Response 500 (ErrorPage (BadRequestKeyError ''msg'')), demo_app)"
    and "spam_serve demo_app [GET ''/is_spam'' [(''text'', ''hello'')], GET ''/'' []]
       = ([Response 500 (ErrorPage (BadRequestKeyError ''msg'')), make_response True hello],
          demo_app)"
    unfolding r n by blast+
  with demo_startup m show ?thesis
    by (intro conjI)
qed

text \<open>
  Run as a script, the application answers the request without \<open>msg\<close> with status 500,
  which is outside the 400 class.
\<close>

theorem is_spam_missing_msg_counterexample:
  "spam_startup demo_lib ''__main__'' demo_templates (Some demo_df) = Inr demo_app
   \<and> map_of [] ''msg'' = (None :: string option)
   \<and> status (fst (spam_wsgi_app demo_app (GET ''/is_spam'' []))) = 500
   \<and> \<not> (400 \<le> status (fst (spam_wsgi_app demo_app (GET ''/is_spam'' [])))
        \<and> status (fst (spam_wsgi_app demo_app (GET ''/is_spam'' []))) < 500)"
proof -
  have "status (fst (spam_wsgi_app demo_app (GET ''/is_spam'' []))) = 500"
    by (simp add: spam_wsgi_app_def dispatch_is_spam is_spam_def args_getitem_def
        make_response_def demo_app_def)
  with demo_startup show ?thesis
    by simp
qed

text \<open>
  C7. The module-level code creates one vectoriser with \<open>stop_words='english'\<close> and
  \<open>max_features=300\<close> and fits it once, on the \<open>msg\<close> column; the classifier is fitted on
  the rows that this vectoriser produced for the column. Serving leaves \<open>cvec\<close> as it is,
  and a prediction request is answered with the label the classifier predicts for the
  row that this same vectoriser makes of the message: the response is what the framework
  makes of \<open>jsonify\<close> of that label, status 200 and the JSON object when the label is text.
\<close>

theorem cvec_fixed:
  assumes "spam_startup lib name ts (Some df0) = Inr st"
    and "i < length rs" and "rs ! i = GET ''/is_spam'' a" and "map_of a ''msg'' = Some s"
  shows "\<exists>f. tfidf_fit lib (Some ''english'') (Some 300) (df_msg df0) = Inr f
           \<and> cvec st = \<lparr>stop_words = Some ''english'', max_features = Some 300, vec_of = Some f\<rparr>
           \<and> nb_fit_method lib MultinomialNB (map f (df_msg df0)) (df_target df0) = Inr (clf st)
           \<and> cvec (snd (spam_serve st rs)) = cvec st
           \<and> (\<exists>l. predict (clf st) [f s] = Inr [l]
                  \<and> fst (spam_serve st rs) ! i
                      = make_response (run_debug name) (jsonify [(''prediction'', l)])
                  \<and> (\<forall>t. l = LStr t \<longrightarrow>
                        fst (spam_serve st rs) ! i
                          = Response 200 (Json (JObj [(''prediction'', JStr t)]))))"
proof -
  from spam_startup_cvec [OF assms(1)] obtain f where
    F: "tfidf_fit lib (Some ''english'') (Some 300) (df_msg df0) = Inr f
           \<and> cvec st = \<lparr>stop_words = Some ''english'', max_features = Some 300, vec_of = Some f\<rparr>
           \<and> spam_X st = map f (df_msg df0)
           \<and> nb_fit_method lib MultinomialNB (map f (df_msg df0)) (df_target df0) = Inr (clf st)" ..
  then have v: "vec_of (cvec st) = Some f"
    by simp
  from spam_startup_fitted [OF assms(1)] obtain g where
    g: "jll (clf st) = Some g" and ne: "classes (clf st) \<noteq> []"
    by blast
  from spam_startup_cached [OF assms(1)] have dbg: "spam_debug st = run_debug name"
    by simp
  let ?l = "classes (clf st) ! argmax (map (\<lambda>c. g c (f s)) (classes (clf st)))"
  have p: "predict (clf st) [f s] = Inr [?l]"
    using g ne by (simp add: predict_fitted)
  have r: "fst (spam_serve st rs) ! i
             = make_response (run_debug name) (jsonify [(''prediction'', ?l)])"
    using assms(2,3) is_spam_fitted [OF v g ne assms(4)]
    by (simp add: spam_serve_nth dispatch_is_spam dbg)
  have q: "\<forall>t. ?l = LStr t \<longrightarrow>
             fst (spam_serve st rs) ! i = Response 200 (Json (JObj [(''prediction'', JStr t)]))"
    unfolding r by (simp add: jsonify_text make_response_def)
  from p r q have "\<exists>l. predict (clf st) [f s] = Inr [l]
                  \<and> fst (spam_serve st rs) ! i
                      = make_response (run_debug name) (jsonify [(''prediction'', l)])
                  \<and> (\<forall>t. l = LStr t \<longrightarrow>
                        fst (spam_serve st rs) ! i
                          = Response 200 (Json (JObj [(''prediction'', JStr t)])))"
    by (intro exI conjI)
  with F show ?thesis
    by (intro exI [of _ f]) (simp add: spam_serve_state)
qed

theorem cvec_fixed_witness:
  "spam_startup demo_lib ''__main__'' demo_templates (Some demo_df) = Inr demo_app
   \<and> cvec demo_app = \<lparr>stop_words = Some ''english'', max_features = Some 300, vec_of = Some length\<rparr>
   \<and> cvec (snd (spam_serve demo_app [GET ''/'' [], GET ''/is_spam'' [(''msg'', ''WIN FREE CASH NOW'')]]))
       = cvec demo_app
   \<and> fst (spam_serve demo_app [GET ''/'' [], GET ''/is_spam'' [(''msg'', ''WIN FREE CASH NOW'')]]) ! 1
       = Response 200 (Json (JObj [(''prediction'', JStr ''spam'')]))"
proof -
  let ?rs = "[GET ''/'' [], GET ''/is_spam'' [(''msg'', ''WIN FREE CASH NOW'')]]"
  have 1: "1 < length ?rs"
    by simp
  have a: "?rs ! 1 = GET ''/is_spam'' [(''msg'', ''WIN FREE CASH NOW'')]"
    by simp
  have m: "map_of [(''msg'', ''WIN FREE CASH NOW'')] ''msg'' = Some ''WIN FREE CASH NOW''"
    by simp
  from cvec_fixed [OF demo_startup 1 a m] obtain f l where
    f: "tfidf_fit demo_lib (Some ''english'') (Some 300) (df_msg demo_df) = Inr f"
    and c: "cvec demo_app = \<lparr>stop_words = Some ''english'', max_features = Some 300, vec_of = Some f\<rparr>"
    and k: "cvec (snd (spam_serve demo_app ?rs)) = cvec demo_app"
    and p: "predict (clf demo_app) [f ''WIN FREE CASH NOW''] = Inr [l]"
    and q: "\<forall>t. l = LStr t \<longrightarrow>
              fst (spam_serve demo_app ?rs) ! 1 = Response 200 (Json (JObj [(''prediction'', JStr t)]))"
    by blast
  from f have f': "f = length"
    by (simp add: demo_lib_def demo_df_def)
  from p have "l = LStr ''spam''"
    by (simp add: f' predict_def demo_app_def)
  with q have "fst (spam_serve demo_app ?rs) ! 1
                 = Response 200 (Json (JObj [(''prediction'', JStr ''spam'')]))"
    by blast
  with demo_startup c k show ?thesis
    unfolding f' by (intro conjI)
qed







text \<open>
  C9. Whatever the message, the label that \<open>is_spam\<close> hands to \<open>jsonify\<close> under
  \<open>prediction\<close> is one of the values of the target column of the training data; with a
  text column it is the string in the JSON object of the response.
\<close>

theorem prediction_is_training_label:
  assumes "spam_startup lib name ts (Some df0) = Inr st" and "map_of a ''msg'' = Some s"
  shows "\<exists>l. l \<in> set (col_values (df_target df0))
            \<and> is_spam st a = jsonify [(''prediction'', l)]
            \<and> (\<forall>rows. df0 = TextTarget rows \<longrightarrow>
                  (\<exists>t. l = LStr t \<and> t \<in> fst ` set rows
                      \<and> is_spam st a = Inr (Json (JObj [(''prediction'', JStr t)]))))"
proof -
  from spam_startup_fitted [OF assms(1)] obtain f g where
    f: "vec_of (cvec st) = Some f" and g: "jll (clf st) = Some g"
    and ne: "classes (clf st) \<noteq> []"
    by blast
  let ?l = "classes (clf st) ! argmax (map (\<lambda>c. g c (f s)) (classes (clf st)))"
  have "predict (clf st) [f s] = Inr [?l]"
    using g ne by (simp add: predict_fitted)
  from predict_in_classes [OF this] have "?l \<in> set (classes (clf st))"
    by simp
  then have m: "?l \<in> set (col_values (df_target df0))"
    by (simp only: spam_startup_classes [OF assms(1)] set_np_unique)
  note r = is_spam_fitted [OF f g ne assms(2)]
  have t: "\<forall>rows. df0 = TextTarget rows \<longrightarrow>
                  (\<exists>t. ?l = LStr t \<and> t \<in> fst ` set rows
                      \<and> is_spam st a = Inr (Json (JObj [(''prediction'', JStr t)])))"
    using m r by (force simp: jsonify_text)
  from m r t show ?thesis
    by (intro exI conjI)
qed

theorem prediction_is_training_label_witness:
  "spam_startup demo_lib ''__main__'' demo_templates (Some demo_df) = Inr demo_app
   \<and> map_of [(''msg'', ''call me'')] ''msg'' = Some ''call me''
   \<and> (\<exists>t. t \<in> fst ` set [(''ham'', ''ok''), (''spam'', ''WIN FREE CASH''), (''ham'', ''see you'')]
          \<and> is_spam demo_app [(''msg'', ''call me'')] = Inr (Json (JObj [(''prediction'', JStr t)])))"
proof -
  have m: "map_of [(''msg'', ''call me'')] ''msg'' = Some ''call me''"
    by simp
  have d: "demo_df = TextTarget [(''ham'', ''ok''), (''spam'', ''WIN FREE CASH''), (''ham'', ''see you'')]"
    by (simp add: demo_df_def)
  from prediction_is_training_label [OF demo_startup m] d
  have "\<exists>t. t \<in> fst ` set [(''ham'', ''ok''), (''spam'', ''WIN FREE CASH''), (''ham'', ''see you'')]
          \<and> is_spam demo_app [(''msg'', ''call me'')] = Inr (Json (JObj [(''prediction'', JStr t)]))"
    by blast
  with demo_startup m show ?thesis
    by (intro conjI)
qed

section \<open>Facts about rows of zeros\<close>









section \<open>Facts about app.py\<close>

lemma bank_serve_state: "snd (bank_serve st rs) = st"
  by (induction rs arbitrary: st) (simp_all add: bank_wsgi_app_def split_beta)

lemma bank_serve_responses:
  "fst (bank_serve st rs) = map (\<lambda>r. make_response (bank_debug st) (bank_dispatch st r)) rs"
  by (induction rs arbitrary: st) (simp_all add: bank_wsgi_app_def split_beta)

lemma bank_serve_nth:
  "i < length rs \<Longrightarrow>
     fst (bank_serve st rs) ! i = make_response (bank_debug st) (bank_dispatch st (rs ! i))"
  by (simp add: bank_serve_responses)

lemma dispatch_bank_hello: "bank_dispatch st (GET ''/'' a) = bank_hello st"
  by (simp add: bank_dispatch_def)

lemma bank_hello_eq:
  "bank_hello st = (case bank_templates st ''report.html'' of
                      None \<Rightarrow> Inl (TemplateNotFound ''report.html'')
                    | Some t \<Rightarrow> Inr (Html (t [(''a'', TNum (score st))])))"
  by (simp add: bank_hello_def render_template_def split: option.splits)

lemma bank_startup_fields:
  assumes "bank_startup lib name ts (Some bank0) = Inr st"
  shows "\<exists>X_train X_test y_train.
           train_test_split lib (bank_X bank0) (map bank_y bank0)
             = Inr (X_train, X_test, y_train, y_test st)
         \<and> lr_fit_method lib (LogisticRegression ''newton-cg'') X_train y_train = Inr (bank_clf st)
         \<and> cross_val_predict lib (bank_clf st) X_test (y_test st) 5 = Inr (preds st)
         \<and> accuracy_score (y_test st) (preds st) = Inr (score st)"
  using assms
  by (auto simp: bank_startup_def read_csv_def Let_def split: sum.splits)

lemma bank_startup_templates:
  assumes "bank_startup lib name ts file = Inr st"
  shows "bank_templates st = ts \<and> bank_debug st = run_debug name"
  using assms
  by (auto simp: bank_startup_def read_csv_def Let_def split: sum.splits option.splits)

lemma bank_startup_score:
  assumes "bank_startup lib name ts file = Inr st"
  shows "5 \<le> length (y_test st) \<and> accuracy_score (y_test st) (preds st) = Inr (score st)"
  using assms
  by (auto simp: bank_startup_def read_csv_def Let_def cross_val_predict_def
      split: sum.splits option.splits if_splits)

lemma accuracy_score_range:
  assumes "accuracy_score y_true y_pred = Inr s" and "y_true \<noteq> []"
  shows "\<exists>q. s = Float q \<and> 0 \<le> q \<and> q \<le> 1
            \<and> q = of_nat (length (filter (\<lambda>(t, p). t = p) (zip y_true y_pred)))
                    / of_nat (length y_true)"
proof -
  let ?k = "length (filter (\<lambda>(t, p). t = p) (zip y_true y_pred))"
  let ?n = "length y_true"
  from assms have len: "length y_true = length y_pred"
    and s: "s = Float (of_nat ?k / of_nat ?n)"
    by (auto simp: accuracy_score_def split: if_splits)
  have "?k \<le> length (zip y_true y_pred)"
    by (rule length_filter_le)
  then have k: "?k \<le> ?n"
    by (simp add: len)
  from assms(2) have n: "0 < ?n"
    by simp
  have "(of_nat ?k :: rat) \<le> of_nat ?n"
    using k by (simp only: of_nat_le_iff)
  then have "(of_nat ?k :: rat) / of_nat ?n \<le> 1"
    using n by (simp add: divide_le_eq_1)
  moreover have "0 \<le> (of_nat ?k :: rat) / of_nat ?n"
    by simp
  ultimately show ?thesis
    using s by blast
qed

lemma demo_bank_X:
  "bank_X demo_bank
     = [[30, 100, 0, 0], [41, 100, 0, 1], [25, 100, 0, 0], [52, 100, 1, 0],
        [38, 100, 0, 0], [47, 100, 0, 1], [29, 100, 1, 0]]"
  by (simp add: bank_X_def get_dummies_def dummies_def demo_bank_def demo_row_def Let_def)

lemma demo_bank_startup:
  "bank_startup demo_bank_lib ''__main__'' demo_templates (Some demo_bank) = Inr demo_bank_app"
  by (simp add: bank_startup_def read_csv_def demo_bank_X Let_def demo_bank_lib_def
      LogisticRegression_def lr_fit_method_def cross_val_predict_def accuracy_score_def
      demo_bank_app_def run_debug_def)
     (simp add: demo_bank_def demo_row_def)

section \<open>The claims about app.py\<close>

text \<open>
  C5. The module-level code computes the score once: it splits the data, fits the
  regression on the training part, lets cross-validation over 5 folds predict the
  held-out part, and takes the accuracy of those predictions against the held-out
  labels. Serving changes no global, so the score stays what it was, and every request
  to \<open>/\<close> is answered with \<open>report.html\<close> rendered with that score under the key \<open>a\<close>.
\<close>

theorem score_fixed:
  assumes "bank_startup lib name ts (Some bank0) = Inr st"
    and "i < length rs" and "rs ! i = GET ''/'' a"
  shows "(\<exists>X_train X_test y_train.
            train_test_split lib (bank_X bank0) (map bank_y bank0)
              = Inr (X_train, X_test, y_train, y_test st)
          \<and> lr_fit_method lib (LogisticRegression ''newton-cg'') X_train y_train = Inr (bank_clf st)
          \<and> cross_val_predict lib (bank_clf st) X_test (y_test st) 5 = Inr (preds st)
          \<and> accuracy_score (y_test st) (preds st) = Inr (score st))
       \<and> snd (bank_serve st rs) = st
       \<and> score (snd (bank_serve st rs)) = score st
       \<and> fst (bank_serve st rs) ! i
           = make_response (run_debug name)
               (case ts ''report.html'' of
                  None \<Rightarrow> Inl (TemplateNotFound ''report.html'')
                | Some t \<Rightarrow> Inr (Html (t [(''a'', TNum (score st))])))"
proof -
  from bank_startup_templates [OF assms(1)]
  have t: "bank_templates st = ts" and dbg: "bank_debug st = run_debug name"
    by simp_all
  have r: "fst (bank_serve st rs) ! i = make_response (run_debug name) (bank_hello st)"
    using assms(2,3) by (simp add: bank_serve_nth dispatch_bank_hello dbg)
  have e: "bank_hello st = (case ts ''report.html'' of
                              None \<Rightarrow> Inl (TemplateNotFound ''report.html'')
                            | Some t \<Rightarrow> Inr (Html (t [(''a'', TNum (score st))])))"
    unfolding t [symmetric] by (rule bank_hello_eq)
  from bank_startup_fields [OF assms(1)] show ?thesis
    unfolding r e bank_serve_state by simp
qed

theorem score_fixed_witness:
  "bank_startup demo_bank_lib ''__main__'' demo_templates (Some demo_bank) = Inr demo_bank_app
   \<and> snd (bank_serve demo_bank_app [GET ''/'' [], GET ''/score'' [], GET ''/'' [(''again'', ''1'')]]) = demo_bank_app
   \<and> fst (bank_serve demo_bank_app [GET ''/'' [], GET ''/score'' [], GET ''/'' [(''again'', ''1'')]]) ! 2
       = Response 200 (Html ''<p>score</p>'')"
proof -
  let ?rs = "[GET ''/'' [], GET ''/score'' [], GET ''/'' [(''again'', ''1'')]]"
  have 2: "2 < length ?rs"
    by simp
  have a: "?rs ! 2 = GET ''/'' [(''again'', ''1'')]"
    by simp
  have ev: "make_response (run_debug ''__main__'')
              (case demo_templates ''report.html'' of
                 None \<Rightarrow> Inl (TemplateNotFound ''report.html'')
               | Some t \<Rightarrow> Inr (Html (t [(''a'', TNum (score demo_bank_app))])))
              = Response 200 (Html ''<p>score</p>'')"
    by (simp add: demo_templates_def demo_bank_app_def make_response_def)
  from score_fixed [OF demo_bank_startup 2 a]
  have "snd (bank_serve demo_bank_app ?rs) = demo_bank_app"
    and "fst (bank_serve demo_bank_app ?rs) ! 2 = Response 200 (Html ''<p>score</p>'')"
    unfolding ev by blast+
  with demo_bank_startup show ?thesis
    by (intro conjI)
qed

text \<open>
  C6. When the module has loaded, the score handed to the report page is a number
  between 0 and 1: the count of held-out predictions that equal their label, divided
  by the count of held-out labels (which is at least 5, or cross-validation would have
  raised).
\<close>

theorem score_in_unit_interval:
  assumes "bank_startup lib name ts file = Inr st"
  shows "\<exists>q. score st = Float q \<and> 0 \<le> q \<and> q \<le> 1
            \<and> q = of_nat (length (filter (\<lambda>(t, p). t = p) (zip (y_test st) (preds st))))
                    / of_nat (length (y_test st))
            \<and> bank_hello st = (case ts ''report.html'' of
                                 None \<Rightarrow> Inl (TemplateNotFound ''report.html'')
                               | Some t \<Rightarrow> Inr (Html (t [(''a'', TNum (Float q))])))"
proof -
  from bank_startup_score [OF assms] have n: "5 \<le> length (y_test st)"
    and a: "accuracy_score (y_test st) (preds st) = Inr (score st)"
    by simp_all
  from n have ne: "y_test st \<noteq> []"
    by auto
  from accuracy_score_range [OF a ne] obtain q where
    q: "score st = Float q" and r: "0 \<le> q" "q \<le> 1"
    and f: "q = of_nat (length (filter (\<lambda>(t, p). t = p) (zip (y_test st) (preds st))))
                    / of_nat (length (y_test st))"
    by blast
  from bank_startup_templates [OF assms] have t: "bank_templates st = ts"
    by simp
  have e: "bank_hello st = (case ts ''report.html'' of
                                 None \<Rightarrow> Inl (TemplateNotFound ''report.html'')
                               | Some t \<Rightarrow> Inr (Html (t [(''a'', TNum (Float q))])))"
    unfolding t [symmetric] q [symmetric] by (rule bank_hello_eq)
  from q r f e show ?thesis
    by (intro exI conjI)
qed

theorem score_in_unit_interval_witness:
  "bank_startup demo_bank_lib ''__main__'' demo_templates (Some demo_bank) = Inr demo_bank_app
   \<and> score demo_bank_app = Float (3 / 5)
   \<and> (\<exists>q. score demo_bank_app = Float q \<and> 0 \<le> q \<and> q \<le> 1
            \<and> q = of_nat (length (filter (\<lambda>(t, p). t = p) (zip (y_test demo_bank_app) (preds demo_bank_app))))
                    / of_nat (length (y_test demo_bank_app))
            \<and> bank_hello demo_bank_app = (case demo_templates ''report.html'' of
                                 None \<Rightarrow> Inl (TemplateNotFound ''report.html'')
                               | Some t \<Rightarrow> Inr (Html (t [(''a'', TNum (Float q))]))))"
proof -
  have s: "score demo_bank_app = Float (3 / 5)"
    by (simp add: demo_bank_app_def)
  from demo_bank_startup s score_in_unit_interval [OF demo_bank_startup] show ?thesis
    by (intro conjI)
qed

end
